theory Spec2Isabelle
  imports Main "HOL-Library.AList"
begin

section \<open>Data model of the signaling server (server.ts)\<close>

text \<open>
  Socket identifiers and room names are strings, as in the source: the room name is built
  by string interpolation from the two socket identifiers. The identifiers the media
  engine hands out (routers, transports, producers, consumers) are only ever used as
  keys, so they are natural numbers taken from one counter of the engine. A call into
  the engine that creates a router or a transport always yields a new object; the
  engine refuses what its own tables rule out (a codec the router does not have, an
  unknown producer, no common codec, a transport that is connected already).
\<close>

type_synonym socket_id = string
type_synonym room_name = string
type_synonym codec = string
type_synonym rtp_capabilities = "codec list"

datatype media_kind = Audio | Video

datatype dtls_state = DtlsNew | DtlsConnecting | DtlsConnected | DtlsFailed | DtlsClosed

record router =
  router_id :: nat
  mediaCodecs :: "(media_kind \<times> codec) list"

record transport =
  t_router :: nat
  t_socketId :: socket_id
  t_isProducer :: bool
  t_connected :: bool

record producer =
  p_router :: nat
  p_kind :: media_kind
  p_codecs :: "codec list"

record consumer =
  c_transport :: nat
  c_producer :: nat
  c_kind :: media_kind
  c_codecs :: "codec list"
  c_paused :: bool

text \<open>
  The error messages of the source, one constructor each:
  \<open>RouterNotFound r\<close> is "Router not found for room: r",
  \<open>TransportNotFound\<close> is "Transport not found",
  \<open>CannotConsume p\<close> is "Cannot consume producer: p",
  \<open>RecvTransportNotFound\<close> is "Receiving transport not found for this consumer",
  \<open>EngineError\<close> is the message of an error raised inside the engine.
\<close>

datatype error =
    RouterNotFound room_name
  | TransportNotFound
  | CannotConsume nat
  | RecvTransportNotFound
  | EngineError

datatype reply =
    Waiting
  | Capabilities "(media_kind \<times> codec) list"
  | TransportInfo nat
  | Connected
  | ProducerId nat
  | ConsumerInfo nat nat media_kind "codec list"
  | Error error

datatype event = Matched room_name | NewProducer nat | PeerDisconnected

text \<open>
  What a handler sends: \<open>Reply s r\<close> is the acknowledgement callback of a request of
  socket \<open>s\<close>; \<open>EmitTo room e\<close> is \<open>io.to(room).emit(e)\<close>; \<open>Broadcast s room e\<close> is
  \<open>socket.to(room).emit(e)\<close> issued on socket \<open>s\<close>, which excludes \<open>s\<close> itself.
\<close>

datatype emission =
    Reply socket_id reply
  | EmitTo room_name event
  | Broadcast socket_id room_name event

text \<open>
  The state of one replica together with the shared list \<open>waiting_pool\<close>. The three
  tables of the source are JavaScript Maps, which keep insertion order; they are
  association lists here, written with \<open>AList.update\<close> (replace in place or append)
  and \<open>AList.delete\<close>, and read with \<open>map_of\<close>. The producers and consumers are
  the objects the engine holds.
\<close>

record server =
  waiting_pool :: "socket_id list"
  rooms :: "(room_name \<times> router) list"
  transports :: "(nat \<times> transport) list"
  peerRooms :: "(socket_id \<times> room_name) list"
  next_id :: nat
  producers :: "(nat \<times> producer) list"
  consumers :: "(nat \<times> consumer) list"
  outbox :: "emission list"

definition init_server :: server where
  "init_server = \<lparr>waiting_pool = [], rooms = [], transports = [], peerRooms = [],
     next_id = 0, producers = [], consumers = [], outbox = []\<rparr>"

section \<open>The shared list\<close>

text \<open>
  The list commands used on \<open>waiting_pool\<close>: the head of the HOL list is the left end.
  \<open>rPop\<close> on an empty list answers null. \<open>lRem\<close> is only called with count 1, which
  removes the first occurrence counted from the left.
\<close>

definition lPush :: "'a \<Rightarrow> 'a list \<Rightarrow> 'a list" where
  "lPush x q = x # q"

definition lLen :: "'a list \<Rightarrow> nat" where
  "lLen q = length q"

definition rPop :: "'a list \<Rightarrow> 'a option \<times> 'a list" where
  "rPop q = (if q = [] then (None, []) else (Some (last q), butlast q))"

definition lRem1 :: "'a \<Rightarrow> 'a list \<Rightarrow> 'a list" where
  "lRem1 x q = remove1 x q"

text \<open>JavaScript truthiness of a value that is null, undefined or a string.\<close>

fun truthy :: "string option \<Rightarrow> bool" where
  "truthy None = False"
| "truthy (Some s) = (s \<noteq> [])"

section \<open>The handlers\<close>

definition send :: "emission \<Rightarrow> server \<Rightarrow> server" where
  "send x st = st\<lparr>outbox := outbox st @ [x]\<rparr>"

definition roomName_of :: "socket_id \<Rightarrow> socket_id \<Rightarrow> room_name" where
  "roomName_of peer1Id peer2Id = ''room-'' @ peer1Id @ ''-'' @ peer2Id"

definition default_codecs :: "(media_kind \<times> codec) list" where
  "default_codecs = [(Audio, ''audio/opus''), (Video, ''video/VP8'')]"

definition register_peer :: "room_name \<Rightarrow> server \<Rightarrow> socket_id \<Rightarrow> server" where
  "register_peer roomName st peerId =
     send (EmitTo peerId (Matched roomName))
       (st\<lparr>peerRooms := AList.update peerId roomName (peerRooms st)\<rparr>)"

text \<open>The body of \<open>if (peer1Id && peer2Id)\<close> of the join handler.\<close>

definition create_room :: "server \<Rightarrow> socket_id \<Rightarrow> socket_id \<Rightarrow> server" where
  "create_room st peer1Id peer2Id =
     (let roomName = roomName_of peer1Id peer2Id;
          r = \<lparr>router_id = next_id st, mediaCodecs = default_codecs\<rparr>;
          st1 = st\<lparr>next_id := Suc (next_id st),
                   rooms := AList.update roomName r (rooms st)\<rparr>
      in foldl (register_peer roomName) st1 [peer1Id, peer2Id])"

definition pair_popped :: "server \<Rightarrow> socket_id option \<Rightarrow> socket_id option \<Rightarrow> server" where
  "pair_popped st peer1Id peer2Id =
     (case (peer1Id, peer2Id) of
        (Some p1, Some p2) \<Rightarrow>
          if truthy peer1Id \<and> truthy peer2Id then create_room st p1 p2 else st
      | _ \<Rightarrow> st)"

text \<open>
  The join handler when it runs from its first line to its last with no other handler
  in between. \<open>cb\<close> says whether the request carries an acknowledgement callback.
\<close>

definition join :: "server \<Rightarrow> socket_id \<Rightarrow> bool \<Rightarrow> server" where
  "join st sock cb =
     (let st1 = st\<lparr>waiting_pool := lPush sock (waiting_pool st)\<rparr>;
          waitingCount = lLen (waiting_pool st1)
      in if waitingCount \<ge> 2 then
           (let (peer1Id, q1) = rPop (waiting_pool st1);
                (peer2Id, q2) = rPop q1
            in pair_popped (st1\<lparr>waiting_pool := q2\<rparr>) peer1Id peer2Id)
         else if cb then send (Reply sock Waiting) st1 else st1)"

definition getRouterRtpCapabilities :: "server \<Rightarrow> socket_id \<Rightarrow> room_name \<Rightarrow> server" where
  "getRouterRtpCapabilities st sock roomName =
     (case map_of (rooms st) roomName of
        Some r \<Rightarrow> send (Reply sock (Capabilities (mediaCodecs r))) st
      | None \<Rightarrow> st)"

definition createWebRtcTransport :: "server \<Rightarrow> socket_id \<Rightarrow> room_name \<Rightarrow> bool \<Rightarrow> server" where
  "createWebRtcTransport st sock roomName isProducer =
     (case map_of (rooms st) roomName of
        None \<Rightarrow> send (Reply sock (Error (RouterNotFound roomName))) st
      | Some r \<Rightarrow>
          (let tid = next_id st;
               t = \<lparr>t_router = router_id r, t_socketId = sock,
                    t_isProducer = isProducer, t_connected = False\<rparr>
           in send (Reply sock (TransportInfo tid))
                (st\<lparr>next_id := Suc tid,
                    transports := AList.update tid t (transports st)\<rparr>)))"

text \<open>The listener the source installs on every transport it creates.\<close>

definition dtlsstatechange :: "server \<Rightarrow> nat \<Rightarrow> dtls_state \<Rightarrow> server" where
  "dtlsstatechange st tid dtlsState =
     (if dtlsState = DtlsClosed
      then st\<lparr>transports := AList.delete tid (transports st)\<rparr> else st)"

text \<open>
  \<open>transport.connect\<close> of the engine rejects a second call on the same transport; the
  handler has no \<open>catch\<close>, so no reply is sent then.
\<close>

definition connectTransport :: "server \<Rightarrow> socket_id \<Rightarrow> nat \<Rightarrow> server" where
  "connectTransport st sock transportId =
     (case map_of (transports st) transportId of
        None \<Rightarrow> send (Reply sock (Error TransportNotFound)) st
      | Some t \<Rightarrow>
          if t_connected t then st
          else send (Reply sock Connected)
                 (st\<lparr>transports :=
                       AList.update transportId (t\<lparr>t_connected := True\<rparr>) (transports st)\<rparr>))"

text \<open>
  \<open>transport.produce\<close>: the engine rejects parameters that name no codec, or a
  codec that the router of the transport was not created with for the given kind;
  every router is created with \<open>default_codecs\<close>. The handler awaits the call
  outside any \<open>try\<close>: on a rejection it stops there, so no producer is stored,
  nothing is emitted and no reply is sent.
\<close>

definition engine_produce :: "transport \<Rightarrow> media_kind \<Rightarrow> codec list \<Rightarrow> producer option" where
  "engine_produce t kind rtpParameters =
     (if rtpParameters \<noteq> [] \<and> list_all (\<lambda>c. (kind, c) \<in> set default_codecs) rtpParameters
      then Some \<lparr>p_router = t_router t, p_kind = kind, p_codecs = rtpParameters\<rparr>
      else None)"

definition produce :: "server \<Rightarrow> socket_id \<Rightarrow> nat \<Rightarrow> media_kind \<Rightarrow> codec list \<Rightarrow> server" where
  "produce st sock transportId kind rtpParameters =
     (case map_of (transports st) transportId of
        None \<Rightarrow> send (Reply sock (Error TransportNotFound)) st
      | Some t \<Rightarrow>
          (case engine_produce t kind rtpParameters of
             None \<Rightarrow> st
           | Some p \<Rightarrow>
               (let pid = next_id st;
                    st1 = st\<lparr>next_id := Suc pid,
                             producers := AList.update pid p (producers st)\<rparr>;
                    roomName = map_of (peerRooms st1) sock;
                    st2 = (case roomName of
                             Some r \<Rightarrow>
                               if truthy roomName
                               then send (Broadcast sock r (NewProducer pid)) st1 else st1
                           | None \<Rightarrow> st1)
                in send (Reply sock (ProducerId pid)) st2)))"

text \<open>
  \<open>router.canConsume\<close>: the producer must belong to the router and share a codec with
  the capabilities offered.
\<close>

definition canConsume :: "server \<Rightarrow> router \<Rightarrow> nat \<Rightarrow> rtp_capabilities \<Rightarrow> bool" where
  "canConsume st r producerId rtpCapabilities =
     (case map_of (producers st) producerId of
        None \<Rightarrow> False
      | Some p \<Rightarrow> p_router p = router_id r
                 \<and> list_ex (\<lambda>c. c \<in> set rtpCapabilities) (p_codecs p))"

text \<open>
  \<open>transport.consume\<close>: the engine looks the producer up in the router of the
  transport and raises when it is not there or cannot be consumed.
\<close>

definition engine_consume ::
    "server \<Rightarrow> nat \<Rightarrow> transport \<Rightarrow> nat \<Rightarrow> rtp_capabilities \<Rightarrow> bool \<Rightarrow> consumer option" where
  "engine_consume st tid t producerId rtpCapabilities paused =
     (case map_of (producers st) producerId of
        None \<Rightarrow> None
      | Some p \<Rightarrow>
          if p_router p = t_router t \<and> list_ex (\<lambda>c. c \<in> set rtpCapabilities) (p_codecs p)
          then Some \<lparr>c_transport = tid, c_producer = producerId, c_kind = p_kind p,
                     c_codecs = filter (\<lambda>c. c \<in> set rtpCapabilities) (p_codecs p),
                     c_paused = paused\<rparr>
          else None)"

definition consume :: "server \<Rightarrow> socket_id \<Rightarrow> room_name \<Rightarrow> nat \<Rightarrow> rtp_capabilities \<Rightarrow> server" where
  "consume st sock roomName producerId rtpCapabilities =
     (case map_of (rooms st) roomName of
        None \<Rightarrow> send (Reply sock (Error (CannotConsume producerId))) st
      | Some r \<Rightarrow>
          if \<not> canConsume st r producerId rtpCapabilities
          then send (Reply sock (Error (CannotConsume producerId))) st
          else
            (case find (\<lambda>(tid, t). t_socketId t = sock \<and> \<not> t_isProducer t) (transports st) of
               None \<Rightarrow> send (Reply sock (Error RecvTransportNotFound)) st
             | Some (tid, t) \<Rightarrow>
                 (case engine_consume st tid t producerId rtpCapabilities True of
                    None \<Rightarrow> send (Reply sock (Error EngineError)) st
                  | Some c \<Rightarrow>
                      send (Reply sock (ConsumerInfo (next_id st) producerId (c_kind c) (c_codecs c)))
                        (st\<lparr>next_id := Suc (next_id st),
                            consumers := AList.update (next_id st) c (consumers st)\<rparr>))))"

text \<open>The resume-consumer handler has an empty body and takes no callback.\<close>

definition resume_consumer :: "server \<Rightarrow> socket_id \<Rightarrow> nat \<Rightarrow> server" where
  "resume_consumer st sock consumerId = st"

definition disconnect :: "server \<Rightarrow> socket_id \<Rightarrow> server" where
  "disconnect st sock =
     (let st1 = st\<lparr>waiting_pool := lRem1 sock (waiting_pool st)\<rparr>;
          roomName = map_of (peerRooms st1) sock
      in case roomName of
           Some r \<Rightarrow>
             if truthy roomName
             then (send (Broadcast sock r PeerDisconnected) st1)
                    \<lparr>peerRooms := AList.delete sock (peerRooms st1)\<rparr>
             else st1
         | None \<Rightarrow> st1)"

section \<open>Sequences of requests\<close>

text \<open>
  One entry per handler of a connection; \<open>DtlsStateChange\<close> is the event of the
  engine on a transport, for which the socket named with it plays no role.
\<close>

datatype request =
    Join bool
  | GetRouterRtpCapabilities room_name
  | CreateWebRtcTransport room_name bool
  | ConnectTransport nat
  | Produce nat media_kind "codec list"
  | Consume room_name nat rtp_capabilities
  | ResumeConsumer nat
  | Disconnect
  | DtlsStateChange nat dtls_state

fun handle :: "server \<Rightarrow> socket_id \<times> request \<Rightarrow> server" where
  "handle st (sock, Join cb) = join st sock cb"
| "handle st (sock, GetRouterRtpCapabilities r) = getRouterRtpCapabilities st sock r"
| "handle st (sock, CreateWebRtcTransport r isProducer) = createWebRtcTransport st sock r isProducer"
| "handle st (sock, ConnectTransport tid) = connectTransport st sock tid"
| "handle st (sock, Produce tid kind rtp) = produce st sock tid kind rtp"
| "handle st (sock, Consume r pid caps) = consume st sock r pid caps"
| "handle st (sock, ResumeConsumer cid) = resume_consumer st sock cid"
| "handle st (sock, Disconnect) = disconnect st sock"
| "handle st (sock, DtlsStateChange tid dtlsState) = dtlsstatechange st tid dtlsState"

definition run :: "server \<Rightarrow> (socket_id \<times> request) list \<Rightarrow> server" where
  "run st reqs = foldl handle st reqs"









section \<open>What reaches a socket\<close>

text \<open>
  The channel library puts every socket into the room named by its own identifier;
  a socket enters another room only through \<open>socket.join\<close>, which the source never
  calls. \<open>delivered x s\<close> lists the events that the emission \<open>x\<close> brings to the
  connected socket \<open>s\<close>.
\<close>

definition in_room :: "socket_id \<Rightarrow> room_name \<Rightarrow> bool" where
  "in_room s room = (room = s)"

fun delivered :: "emission \<Rightarrow> socket_id \<Rightarrow> event list" where
  "delivered (Reply sock r) s = []"
| "delivered (EmitTo room e) s = (if in_room s room then [e] else [])"
| "delivered (Broadcast sender room e) s = (if s \<noteq> sender \<and> in_room s room then [e] else [])"

definition received :: "server \<Rightarrow> socket_id \<Rightarrow> event list" where
  "received st s = concat (map (\<lambda>x. delivered x s) (outbox st))"

section \<open>Handlers that interleave\<close>

text \<open>
  Every \<open>await\<close> of the join handler is a point where another handler may run. A task
  is a handler together with the place it has reached: before \<open>lPush\<close>, before
  \<open>lLen\<close>, before the first and before the second \<open>rPop\<close> (the value of the first
  is kept), or finished. The code after the last command of a handler touches only the
  tables of the replica and runs with that command. A schedule names, step by step,
  the task that runs its next command.
\<close>

datatype join_pc = AtPush | AtLen | AtPop1 | AtPop2 "socket_id option" | JoinDone

datatype task = JoinTask socket_id bool join_pc | DisconnectTask socket_id bool

fun step_task :: "server \<Rightarrow> task \<Rightarrow> server \<times> task" where
  "step_task st (JoinTask s cb AtPush) =
     (st\<lparr>waiting_pool := lPush s (waiting_pool st)\<rparr>, JoinTask s cb AtLen)"
| "step_task st (JoinTask s cb AtLen) =
     (if lLen (waiting_pool st) \<ge> 2 then (st, JoinTask s cb AtPop1)
      else ((if cb then send (Reply s Waiting) st else st), JoinTask s cb JoinDone))"
| "step_task st (JoinTask s cb AtPop1) =
     (let (peer1Id, q) = rPop (waiting_pool st)
      in (st\<lparr>waiting_pool := q\<rparr>, JoinTask s cb (AtPop2 peer1Id)))"
| "step_task st (JoinTask s cb (AtPop2 peer1Id)) =
     (let (peer2Id, q) = rPop (waiting_pool st)
      in (pair_popped (st\<lparr>waiting_pool := q\<rparr>) peer1Id peer2Id, JoinTask s cb JoinDone))"
| "step_task st (JoinTask s cb JoinDone) = (st, JoinTask s cb JoinDone)"
| "step_task st (DisconnectTask s False) = (disconnect st s, DisconnectTask s True)"
| "step_task st (DisconnectTask s True) = (st, DisconnectTask s True)"

fun step :: "server \<times> task list \<Rightarrow> nat \<Rightarrow> server \<times> task list" where
  "step (st, ts) i =
     (if i < length ts
      then (let (st', t') = step_task st (ts ! i) in (st', ts[i := t']))
      else (st, ts))"

definition run_sched :: "server \<times> task list \<Rightarrow> nat list \<Rightarrow> server \<times> task list" where
  "run_sched cfg sched = foldl step cfg sched"

text \<open>The sockets whose join handler has not yet pushed its identifier.\<close>

fun pending :: "task \<Rightarrow> socket_id list" where
  "pending (JoinTask s cb AtPush) = [s]"
| "pending (JoinTask s cb pc) = []"
| "pending (DisconnectTask s d) = []"

definition joiners :: "task list \<Rightarrow> socket_id list" where
  "joiners ts = concat (map pending ts)"

definition new_join :: "socket_id \<Rightarrow> task" where
  "new_join s = JoinTask s True AtPush"

definition new_disconnect :: "socket_id \<Rightarrow> task" where
  "new_disconnect s = DisconnectTask s False"

section \<open>Sequential joins: pairing in order of arrival\<close>



lemma create_room_fields:
  "waiting_pool (create_room st a b) = waiting_pool st"
  "rooms (create_room st a b) =
     AList.update (roomName_of a b) \<lparr>router_id = next_id st, mediaCodecs = default_codecs\<rparr> (rooms st)"
  "peerRooms (create_room st a b) =
     AList.update b (roomName_of a b) (AList.update a (roomName_of a b) (peerRooms st))"
  "next_id (create_room st a b) = Suc (next_id st)"
  "transports (create_room st a b) = transports st"
  "producers (create_room st a b) = producers st"
  "consumers (create_room st a b) = consumers st"
  "outbox (create_room st a b) =
     outbox st @ [EmitTo a (Matched (roomName_of a b)), EmitTo b (Matched (roomName_of a b))]"
  by (simp_all add: create_room_def register_peer_def send_def Let_def)
















section \<open>Interleaved handlers on the waiting pool\<close>

lemmas handler_defs = join_def lPush_def lLen_def rPop_def lRem1_def pair_popped_def send_def
  create_room_def register_peer_def roomName_of_def init_server_def Let_def

text \<open>
  A join handler that runs its four commands with nothing in between is the handler
  \<open>join\<close> of the sequential reading.
\<close>

lemma join_as_schedule:
  "fst (run_sched (st, [JoinTask s cb AtPush]) [0, 0, 0, 0]) = join st s cb"
  by (cases "waiting_pool st")
     (simp_all add: run_sched_def join_def lLen_def lPush_def Let_def split: prod.splits)

text \<open>
  Claim C1 at a schedule of four join handlers. \<open>A\<close>, \<open>B\<close> and \<open>C\<close> push, then
  each reads the length 3; the handler of \<open>A\<close> pops \<open>A\<close> and \<open>B\<close> and creates
  their room; the handler of \<open>B\<close> pops \<open>C\<close> and then null, so it removes one
  entry and pairs nobody; the handler of \<open>C\<close> pops null twice; \<open>D\<close> joins last
  and waits. Each handler issues its two pops back to back, as one replica does. At
  the end there is one room, not two, and \<open>C\<close> is neither in a room nor in the pool.
\<close>

theorem racing_joins_drop_a_peer:
  "run_sched (init_server, map new_join [''A'', ''B'', ''C'', ''D''])
      [0, 1, 2, 0, 1, 2, 0, 0, 1, 1, 2, 2, 3, 3]
   = (\<lparr>waiting_pool = [''D''],
       rooms = [(''room-A-B'', \<lparr>router_id = 0, mediaCodecs = default_codecs\<rparr>)],
       transports = [],
       peerRooms = [(''A'', ''room-A-B''), (''B'', ''room-A-B'')],
       next_id = 1, producers = [], consumers = [],
       outbox = [EmitTo ''A'' (Matched ''room-A-B''), EmitTo ''B'' (Matched ''room-A-B''),
                 Reply ''D'' Waiting]\<rparr>,
      [JoinTask ''A'' True JoinDone, JoinTask ''B'' True JoinDone,
       JoinTask ''C'' True JoinDone, JoinTask ''D'' True JoinDone])"
  by (simp add: run_sched_def new_join_def handler_defs)

text \<open>
  Claim C3 as written: a socket that sends \<open>join\<close> a second time while it waits is
  pushed again, and the pool holds its identifier twice.
\<close>

theorem repeated_join_duplicates:
  "\<not> distinct (waiting_pool (fst (run_sched (init_server, [new_join ''A'', new_join ''A'']) [0, 0, 1])))"
  by (simp add: run_sched_def new_join_def handler_defs)

lemma pool_send [simp]: "waiting_pool (send x st) = waiting_pool st"
  by (simp add: send_def)

lemma pool_pair_popped [simp]: "waiting_pool (pair_popped st a b) = waiting_pool st"
  by (simp add: pair_popped_def create_room_fields split: option.splits)

lemma pool_disconnect [simp]: "waiting_pool (disconnect st s) = remove1 s (waiting_pool st)"
  by (simp add: disconnect_def lRem1_def Let_def split: option.splits)

lemma rPop_distinct:
  assumes "rPop q = (r, q')" and "distinct (q @ xs)"
  shows "distinct (q' @ xs)"
proof -
  have "set q' \<subseteq> set q" and "distinct q'"
    using assms by (auto simp: rPop_def split: if_splits dest: in_set_butlastD intro: distinct_butlast)
  then show ?thesis using assms(2) by auto
qed

lemma step_task_distinct:
  "step_task st t = (st', t') \<Longrightarrow> distinct (waiting_pool st @ pending t @ xs) \<Longrightarrow>
   distinct (waiting_pool st' @ pending t' @ xs)"
proof (induction st t rule: step_task.induct)
  case (3 st s cb)
  obtain r q where rq: "rPop (waiting_pool st) = (r, q)" by (cases "rPop (waiting_pool st)")
  have "distinct (waiting_pool st @ xs)" using "3.prems"(2) by simp
  from rPop_distinct [OF rq this] have "distinct (q @ xs)" .
  then show ?case using "3.prems"(1) rq by auto
next
  case (4 st s cb peer1Id)
  obtain r q where rq: "rPop (waiting_pool st) = (r, q)" by (cases "rPop (waiting_pool st)")
  have "distinct (waiting_pool st @ xs)" using "4.prems"(2) by simp
  from rPop_distinct [OF rq this] have "distinct (q @ xs)" .
  then show ?case using "4.prems"(1) rq by auto
qed (auto simp: lPush_def split: if_splits dest: notin_set_remove1)

lemma joiners_split:
  "i < length ts \<Longrightarrow>
   joiners ts = joiners (take i ts) @ pending (ts ! i) @ joiners (drop (Suc i) ts)"
  unfolding joiners_def by (subst id_take_nth_drop [of i ts]) simp_all

lemma joiners_update:
  "i < length ts \<Longrightarrow>
   joiners (ts[i := t]) = joiners (take i ts) @ pending t @ joiners (drop (Suc i) ts)"
  unfolding joiners_def by (simp add: upd_conv_take_nth_drop)

lemma step_distinct:
  assumes "distinct (waiting_pool (fst cfg) @ joiners (snd cfg))"
  shows "distinct (waiting_pool (fst (step cfg i)) @ joiners (snd (step cfg i)))"
proof (cases cfg)
  case (Pair st ts)
  show ?thesis
  proof (cases "i < length ts")
    case False
    then show ?thesis using assms Pair by simp
  next
    case True
    obtain st' t' where s: "step_task st (ts ! i) = (st', t')" by (cases "step_task st (ts ! i)")
    let ?A = "joiners (take i ts)" and ?B = "joiners (drop (Suc i) ts)"
    have "distinct (waiting_pool st @ ?A @ pending (ts ! i) @ ?B)"
      using assms Pair joiners_split [OF True] by simp
    then have "distinct (waiting_pool st @ pending (ts ! i) @ (?A @ ?B))" by auto
    from step_task_distinct [OF s this]
    have "distinct (waiting_pool st' @ ?A @ pending t' @ ?B)" by auto
    then show ?thesis using Pair True s joiners_update [OF True] by simp
  qed
qed

lemma run_sched_distinct:
  "distinct (waiting_pool (fst cfg) @ joiners (snd cfg)) \<Longrightarrow>
   distinct (waiting_pool (fst (run_sched cfg sched)) @ joiners (snd (run_sched cfg sched)))"
  unfolding run_sched_def
proof (induction sched arbitrary: cfg)
  case Nil
  then show ?case by simp
next
  case (Cons i sched)
  from Cons.IH [OF step_distinct [OF Cons.prems]] show ?case by simp
qed

text \<open>
  Claim C3, as it holds on the code. Start from a pool without duplicates and any
  set of join and disconnect handlers, each at any place, such that the sockets still
  to be pushed are pairwise different and not in the pool. Then after every schedule
  of their commands the pool has no duplicate, and removing a socket from it twice
  is the same as removing it once.
\<close>

theorem waiting_pool_no_duplicates:
  assumes "distinct (waiting_pool st)" and "distinct (joiners ts)"
    and "set (joiners ts) \<inter> set (waiting_pool st) = {}"
  shows "distinct (waiting_pool (fst (run_sched (st, ts) sched)))
       \<and> lRem1 s (lRem1 s (waiting_pool (fst (run_sched (st, ts) sched))))
           = lRem1 s (waiting_pool (fst (run_sched (st, ts) sched)))"
proof -
  have "distinct (waiting_pool (fst (st, ts)) @ joiners (snd (st, ts)))"
    using assms by auto
  from run_sched_distinct [OF this]
  have d: "distinct (waiting_pool (fst (run_sched (st, ts) sched)))" by simp
  then have "s \<notin> set (remove1 s (waiting_pool (fst (run_sched (st, ts) sched))))" by simp
  then show ?thesis using d by (simp add: lRem1_def remove1_idem)
qed

text \<open>Three joins and a disconnect, interleaved.\<close>

theorem waiting_pool_no_duplicates_witness:
  "distinct (waiting_pool init_server)
   \<and> distinct (joiners [new_join ''A'', new_join ''B'', new_disconnect ''A'', new_join ''C''])
   \<and> set (joiners [new_join ''A'', new_join ''B'', new_disconnect ''A'', new_join ''C''])
       \<inter> set (waiting_pool init_server) = {}
   \<and> distinct (waiting_pool (fst (run_sched
        (init_server, [new_join ''A'', new_join ''B'', new_disconnect ''A'', new_join ''C''])
        [0, 1, 3, 2, 0, 1, 3])))
   \<and> waiting_pool (fst (run_sched
        (init_server, [new_join ''A'', new_join ''B'', new_disconnect ''A'', new_join ''C''])
        [0, 1, 3, 2, 0, 1, 3])) = [''C'', ''B'']"
proof -
  let ?ts = "[new_join ''A'', new_join ''B'', new_disconnect ''A'', new_join ''C'']"
  have h1: "distinct (waiting_pool init_server)" by (simp add: init_server_def)
  have h2: "distinct (joiners ?ts)" by (simp add: joiners_def new_join_def new_disconnect_def)
  have h3: "set (joiners ?ts) \<inter> set (waiting_pool init_server) = {}"
    by (simp add: init_server_def)
  have v: "waiting_pool (fst (run_sched (init_server, ?ts) [0, 1, 3, 2, 0, 1, 3])) = [''C'', ''B'']"
    by (simp add: run_sched_def new_join_def new_disconnect_def disconnect_def handler_defs)
  show ?thesis
    using h1 h2 h3 v waiting_pool_no_duplicates [OF h1 h2 h3, where s = "''A''" and sched = "[0, 1, 3, 2, 0, 1, 3]"]
    by simp
qed

lemmas request_defs = run_def getRouterRtpCapabilities_def createWebRtcTransport_def
  connectTransport_def produce_def engine_produce_def consume_def canConsume_def engine_consume_def
  resume_consumer_def disconnect_def dtlsstatechange_def default_codecs_def

section \<open>Disconnect\<close>

text \<open>
  Claim C4 as written: \<open>A\<close> and \<open>B\<close> are paired, \<open>A\<close> creates a transport and
  disconnects. The transport is still in the table, and a \<open>connectTransport\<close> on its
  identifier is answered with \<open>connected\<close>, not with "Transport not found".
\<close>

theorem transport_survives_disconnect:
  "last (outbox (run init_server
      [(''A'', Join True), (''B'', Join True), (''A'', CreateWebRtcTransport ''room-A-B'' True),
       (''A'', Disconnect), (''B'', ConnectTransport 1)])) = Reply ''B'' Connected
   \<and> transports (run init_server
      [(''A'', Join True), (''B'', Join True), (''A'', CreateWebRtcTransport ''room-A-B'' True),
       (''A'', Disconnect)])
     = [(1, \<lparr>t_router = 0, t_socketId = ''A'', t_isProducer = True, t_connected = False\<rparr>)]"
  by (simp add: request_defs handler_defs)

lemma transports_join: "transports (join st sock cb) = transports st"
  by (simp add: join_def lPush_def lLen_def send_def pair_popped_def create_room_fields Let_def
      split: prod.splits option.splits)

lemma transports_handle:
  assumes "map_of (transports st) tid \<noteq> None" and "snd x \<noteq> DtlsStateChange tid DtlsClosed"
  shows "map_of (transports (handle st x)) tid \<noteq> None"
proof (cases x)
  case (Pair sock req)
  show ?thesis
  proof (cases req)
    case (Join cb)
    then show ?thesis using assms(1) Pair by (simp add: transports_join)
  next
    case (DtlsStateChange tid' s)
    then show ?thesis
      using assms Pair by (auto simp: dtlsstatechange_def AList.delete_conv')
  qed (use assms(1) Pair in \<open>auto simp: request_defs send_def lRem1_def Let_def AList.update_conv'
        split: option.splits prod.splits\<close>)
qed

lemma transports_run:
  "map_of (transports st) tid \<noteq> None \<Longrightarrow>
   \<forall>x\<in>set reqs. snd x \<noteq> DtlsStateChange tid DtlsClosed \<Longrightarrow>
   map_of (transports (run st reqs)) tid \<noteq> None"
  unfolding run_def
proof (induction reqs arbitrary: st)
  case Nil
  then show ?case by simp
next
  case (Cons x reqs)
  have "map_of (transports (handle st x)) tid \<noteq> None"
    using transports_handle [OF Cons.prems(1)] Cons.prems(2) by simp
  from Cons.IH [OF this] Cons.prems(2) show ?case by simp
qed

text \<open>
  Claim C4, as it holds on the code. When a socket that the index maps to a room
  disconnects, the handler removes one occurrence of its identifier from the pool
  (none is left when the pool has no duplicate), emits one \<open>peer-disconnected\<close>
  addressed to that room, the sender excluded, and removes the socket from the index.
  It leaves the tables of transports, producers and consumers as they are. A
  transport registered before is still found after any later requests, as long as the
  engine has not reported it closed, and \<open>connectTransport\<close> on it does not answer
  "Transport not found".
\<close>

theorem disconnect_keeps_transports:
  assumes "map_of (peerRooms st) sock = Some r" and "r \<noteq> []"
  shows "waiting_pool (disconnect st sock) = remove1 sock (waiting_pool st)
       \<and> (distinct (waiting_pool st) \<longrightarrow> sock \<notin> set (waiting_pool (disconnect st sock)))
       \<and> outbox (disconnect st sock) = outbox st @ [Broadcast sock r PeerDisconnected]
       \<and> map_of (peerRooms (disconnect st sock)) sock = None
       \<and> transports (disconnect st sock) = transports st
       \<and> producers (disconnect st sock) = producers st
       \<and> consumers (disconnect st sock) = consumers st
       \<and> (map_of (transports st) tid \<noteq> None \<longrightarrow>
          (\<forall>x\<in>set reqs. snd x \<noteq> DtlsStateChange tid DtlsClosed) \<longrightarrow>
            map_of (transports (run (disconnect st sock) reqs)) tid \<noteq> None
          \<and> outbox (connectTransport (run (disconnect st sock) reqs) s' tid)
              \<noteq> outbox (run (disconnect st sock) reqs) @ [Reply s' (Error TransportNotFound)])"
proof -
  have d: "waiting_pool (disconnect st sock) = remove1 sock (waiting_pool st)
       \<and> outbox (disconnect st sock) = outbox st @ [Broadcast sock r PeerDisconnected]
       \<and> map_of (peerRooms (disconnect st sock)) sock = None
       \<and> transports (disconnect st sock) = transports st
       \<and> producers (disconnect st sock) = producers st
       \<and> consumers (disconnect st sock) = consumers st"
    using assms by (simp add: disconnect_def send_def lRem1_def Let_def AList.delete_conv')
  have p: "distinct (waiting_pool st) \<longrightarrow> sock \<notin> set (waiting_pool (disconnect st sock))"
    using d by simp
  have later: "map_of (transports (run (disconnect st sock) reqs)) tid \<noteq> None
          \<and> outbox (connectTransport (run (disconnect st sock) reqs) s' tid)
              \<noteq> outbox (run (disconnect st sock) reqs) @ [Reply s' (Error TransportNotFound)]"
    if "map_of (transports st) tid \<noteq> None"
      and "\<forall>x\<in>set reqs. snd x \<noteq> DtlsStateChange tid DtlsClosed"
  proof -
    have "map_of (transports (disconnect st sock)) tid \<noteq> None" using that(1) d by simp
    from transports_run [OF this that(2)]
    have f: "map_of (transports (run (disconnect st sock) reqs)) tid \<noteq> None" .
    then show ?thesis by (auto simp: connectTransport_def send_def split: if_splits)
  qed
  show ?thesis using d p later by blast
qed

text \<open>
  The statement for \<open>A\<close> of the pair \<open>A\<close>, \<open>B\<close> and its transport 1, looked up
  after \<open>B\<close> has created a transport and has left too.
\<close>

theorem disconnect_keeps_transports_witness:
  "map_of (peerRooms (run init_server
      [(''A'', Join True), (''B'', Join True), (''A'', CreateWebRtcTransport ''room-A-B'' True)])) ''A''
     = Some ''room-A-B''
   \<and> ''room-A-B'' \<noteq> []
   \<and> waiting_pool (disconnect (run init_server
      [(''A'', Join True), (''B'', Join True), (''A'', CreateWebRtcTransport ''room-A-B'' True)]) ''A'')
     = []
   \<and> transports (disconnect (run init_server
      [(''A'', Join True), (''B'', Join True), (''A'', CreateWebRtcTransport ''room-A-B'' True)]) ''A'')
     = [(1, \<lparr>t_router = 0, t_socketId = ''A'', t_isProducer = True, t_connected = False\<rparr>)]
   \<and> list_all (\<lambda>x. snd x \<noteq> DtlsStateChange 1 DtlsClosed)
        [(''B'', CreateWebRtcTransport ''room-A-B'' False), (''B'', Disconnect)]
   \<and> map_of (transports (run (disconnect (run init_server
      [(''A'', Join True), (''B'', Join True), (''A'', CreateWebRtcTransport ''room-A-B'' True)]) ''A'')
        [(''B'', CreateWebRtcTransport ''room-A-B'' False), (''B'', Disconnect)])) 1 \<noteq> None
   \<and> outbox (connectTransport (run (disconnect (run init_server
      [(''A'', Join True), (''B'', Join True), (''A'', CreateWebRtcTransport ''room-A-B'' True)]) ''A'')
        [(''B'', CreateWebRtcTransport ''room-A-B'' False), (''B'', Disconnect)]) ''C'' 1)
     \<noteq> outbox (run (disconnect (run init_server
      [(''A'', Join True), (''B'', Join True), (''A'', CreateWebRtcTransport ''room-A-B'' True)]) ''A'')
        [(''B'', CreateWebRtcTransport ''room-A-B'' False), (''B'', Disconnect)])
        @ [Reply ''C'' (Error TransportNotFound)]"
proof -
  let ?st = "run init_server
      [(''A'', Join True), (''B'', Join True), (''A'', CreateWebRtcTransport ''room-A-B'' True)]"
  let ?reqs = "[(''B'', CreateWebRtcTransport ''room-A-B'' False), (''B'', Disconnect)]"
  have h1: "map_of (peerRooms ?st) ''A'' = Some ''room-A-B''"
    by (simp add: request_defs handler_defs)
  have h2: "''room-A-B'' \<noteq> []" by simp
  have h3: "map_of (transports ?st) 1 \<noteq> None"
    by (simp add: request_defs handler_defs)
  have h4: "transports ?st
      = [(1, \<lparr>t_router = 0, t_socketId = ''A'', t_isProducer = True, t_connected = False\<rparr>)]"
    by (simp add: request_defs handler_defs)
  have h5: "\<forall>x\<in>set ?reqs. snd x \<noteq> DtlsStateChange 1 DtlsClosed" by simp
  have h5': "list_all (\<lambda>x. snd x \<noteq> DtlsStateChange 1 DtlsClosed) ?reqs" by simp
  have h6: "waiting_pool ?st = []" by (simp add: request_defs handler_defs)
  note t = disconnect_keeps_transports [OF h1 h2, where tid = 1 and s' = "''C''"
      and reqs = ?reqs]
  from t have "waiting_pool (disconnect ?st ''A'') = remove1 ''A'' (waiting_pool ?st)" by blast
  with h6 have c0: "waiting_pool (disconnect ?st ''A'') = []" by simp
  from t have "transports (disconnect ?st ''A'') = transports ?st" by blast
  with h4 have c1: "transports (disconnect ?st ''A'')
      = [(1, \<lparr>t_router = 0, t_socketId = ''A'', t_isProducer = True, t_connected = False\<rparr>)]"
    by simp
  from t h3 h5 have c2: "map_of (transports (run (disconnect ?st ''A'') ?reqs)) 1 \<noteq> None
      \<and> outbox (connectTransport (run (disconnect ?st ''A'') ?reqs) ''C'' 1)
          \<noteq> outbox (run (disconnect ?st ''A'') ?reqs) @ [Reply ''C'' (Error TransportNotFound)]"
    by blast
  show ?thesis using h1 h2 c0 c1 h5' c2 by blast
qed

section \<open>Produce\<close>

text \<open>
  Claim C5 as written: \<open>A\<close> produces video twice on its transport. Both calls
  succeed, two video producers exist, and \<open>new-producer\<close> is emitted twice.
\<close>

theorem second_produce_broadcasts_again:
  "outbox (run init_server
      [(''A'', Join True), (''B'', Join True), (''A'', CreateWebRtcTransport ''room-A-B'' True),
       (''A'', Produce 1 Video [''video/VP8'']), (''A'', Produce 1 Video [''video/VP8''])])
   = [Reply ''A'' Waiting, EmitTo ''A'' (Matched ''room-A-B''), EmitTo ''B'' (Matched ''room-A-B''),
      Reply ''A'' (TransportInfo 1),
      Broadcast ''A'' ''room-A-B'' (NewProducer 2), Reply ''A'' (ProducerId 2),
      Broadcast ''A'' ''room-A-B'' (NewProducer 3), Reply ''A'' (ProducerId 3)]
   \<and> producers (run init_server
      [(''A'', Join True), (''B'', Join True), (''A'', CreateWebRtcTransport ''room-A-B'' True),
       (''A'', Produce 1 Video [''video/VP8'']), (''A'', Produce 1 Video [''video/VP8''])])
   = [(2, \<lparr>p_router = 0, p_kind = Video, p_codecs = [''video/VP8'']\<rparr>),
      (3, \<lparr>p_router = 0, p_kind = Video, p_codecs = [''video/VP8'']\<rparr>)]"
  by (simp add: request_defs handler_defs)

text \<open>
  Claim C5, as it holds on the code. Every \<open>produce\<close> on a registered transport
  that the engine accepts, by a socket that the index maps to a room, creates a new
  producer, emits exactly one
  \<open>new-producer\<close> addressed to that room, the sender excluded, and then answers
  with the identifier. The producers that exist already stay as they are, whatever
  their kind: there is no limit of one producer per kind.
\<close>

theorem produce_broadcasts_every_time:
  assumes "map_of (transports st) tid = Some t"
    and "engine_produce t kind rtp \<noteq> None"
    and "map_of (peerRooms st) sock = Some r" and "r \<noteq> []"
  shows "outbox (produce st sock tid kind rtp)
           = outbox st @ [Broadcast sock r (NewProducer (next_id st)),
                          Reply sock (ProducerId (next_id st))]
       \<and> map_of (producers (produce st sock tid kind rtp)) (next_id st)
           = Some \<lparr>p_router = t_router t, p_kind = kind, p_codecs = rtp\<rparr>
       \<and> (pid \<noteq> next_id st \<longrightarrow>
            map_of (producers (produce st sock tid kind rtp)) pid = map_of (producers st) pid)"
proof -
  have e: "engine_produce t kind rtp
      = Some \<lparr>p_router = t_router t, p_kind = kind, p_codecs = rtp\<rparr>"
    using assms(2) by (simp add: engine_produce_def split: if_splits)
  show ?thesis
    using assms(1,3,4) e by (simp add: produce_def send_def Let_def AList.update_conv')
qed

text \<open>The second video \<open>produce\<close> of \<open>A\<close>.\<close>

theorem produce_broadcasts_every_time_witness:
  "map_of (transports (run init_server
      [(''A'', Join True), (''B'', Join True), (''A'', CreateWebRtcTransport ''room-A-B'' True),
       (''A'', Produce 1 Video [''video/VP8''])])) 1
     = Some \<lparr>t_router = 0, t_socketId = ''A'', t_isProducer = True, t_connected = False\<rparr>
   \<and> engine_produce \<lparr>t_router = 0, t_socketId = ''A'', t_isProducer = True, t_connected = False\<rparr>
        Video [''video/VP8''] \<noteq> None
   \<and> map_of (peerRooms (run init_server
      [(''A'', Join True), (''B'', Join True), (''A'', CreateWebRtcTransport ''room-A-B'' True),
       (''A'', Produce 1 Video [''video/VP8''])])) ''A'' = Some ''room-A-B''
   \<and> ''room-A-B'' \<noteq> []
   \<and> outbox (produce (run init_server
      [(''A'', Join True), (''B'', Join True), (''A'', CreateWebRtcTransport ''room-A-B'' True),
       (''A'', Produce 1 Video [''video/VP8''])]) ''A'' 1 Video [''video/VP8''])
     = outbox (run init_server
      [(''A'', Join True), (''B'', Join True), (''A'', CreateWebRtcTransport ''room-A-B'' True),
       (''A'', Produce 1 Video [''video/VP8''])])
       @ [Broadcast ''A'' ''room-A-B'' (NewProducer 3), Reply ''A'' (ProducerId 3)]"
proof -
  let ?st = "run init_server
      [(''A'', Join True), (''B'', Join True), (''A'', CreateWebRtcTransport ''room-A-B'' True),
       (''A'', Produce 1 Video [''video/VP8''])]"
  let ?t = "\<lparr>t_router = 0, t_socketId = ''A'', t_isProducer = True, t_connected = False\<rparr>"
  have h1: "map_of (transports ?st) 1 = Some ?t"
    by (simp add: request_defs handler_defs)
  have h2: "engine_produce ?t Video [''video/VP8''] \<noteq> None"
    by (simp add: engine_produce_def default_codecs_def)
  have h3: "map_of (peerRooms ?st) ''A'' = Some ''room-A-B''"
    by (simp add: request_defs handler_defs)
  have h4: "''room-A-B'' \<noteq> []" by simp
  have n: "next_id ?st = 3" by (simp add: request_defs handler_defs)
  from produce_broadcasts_every_time [OF h1 h2 h3 h4]
  have "outbox (produce ?st ''A'' 1 Video [''video/VP8''])
      = outbox ?st @ [Broadcast ''A'' ''room-A-B'' (NewProducer (next_id ?st)),
                      Reply ''A'' (ProducerId (next_id ?st))]"
    by blast
  then have c: "outbox (produce ?st ''A'' 1 Video [''video/VP8''])
      = outbox ?st @ [Broadcast ''A'' ''room-A-B'' (NewProducer 3), Reply ''A'' (ProducerId 3)]"
    unfolding n .
  show ?thesis using h1 h2 h3 h4 c by blast
qed

text \<open>
  Claim C10 as written: socket \<open>C\<close>, which has no room, asks to produce
  \<open>video/H264\<close> on the registered transport 1. The routers have Opus and VP8 only,
  the engine rejects the call, and the handler sends nothing: no producer exists
  and the request stays without an answer.
\<close>

theorem rejected_produce_unanswered:
  "map_of (transports (run init_server
      [(''A'', Join True), (''B'', Join True), (''A'', CreateWebRtcTransport ''room-A-B'' True),
       (''C'', Produce 1 Video [''video/H264''])])) 1
     = Some \<lparr>t_router = 0, t_socketId = ''A'', t_isProducer = True, t_connected = False\<rparr>
   \<and> outbox (run init_server
      [(''A'', Join True), (''B'', Join True), (''A'', CreateWebRtcTransport ''room-A-B'' True),
       (''C'', Produce 1 Video [''video/H264''])])
     = [Reply ''A'' Waiting, EmitTo ''A'' (Matched ''room-A-B''), EmitTo ''B'' (Matched ''room-A-B''),
        Reply ''A'' (TransportInfo 1)]
   \<and> producers (run init_server
      [(''A'', Join True), (''B'', Join True), (''A'', CreateWebRtcTransport ''room-A-B'' True),
       (''C'', Produce 1 Video [''video/H264''])]) = []"
  by (simp add: request_defs handler_defs)

text \<open>
  Claim C10, as it holds on the code. A \<open>produce\<close> on a registered transport that
  the engine accepts creates the producer and answers with its identifier, whoever
  asks. When the index has no room for the asking socket, the answer is all that is
  sent: no \<open>new-producer\<close> is emitted.
\<close>

theorem produce_without_room:
  assumes "map_of (transports st) tid = Some t"
    and "engine_produce t kind rtp \<noteq> None"
  shows "last (outbox (produce st sock tid kind rtp)) = Reply sock (ProducerId (next_id st))
       \<and> map_of (producers (produce st sock tid kind rtp)) (next_id st)
           = Some \<lparr>p_router = t_router t, p_kind = kind, p_codecs = rtp\<rparr>
       \<and> (map_of (peerRooms st) sock = None \<longrightarrow>
            outbox (produce st sock tid kind rtp)
              = outbox st @ [Reply sock (ProducerId (next_id st))])"
proof -
  have e: "engine_produce t kind rtp
      = Some \<lparr>p_router = t_router t, p_kind = kind, p_codecs = rtp\<rparr>"
    using assms(2) by (simp add: engine_produce_def split: if_splits)
  show ?thesis
    using assms(1) e
    by (simp add: produce_def send_def Let_def AList.update_conv' split: option.splits)
qed

text \<open>Socket \<open>C\<close>, which never joined, produces Opus audio on the transport of \<open>A\<close>.\<close>

theorem produce_without_room_witness:
  "map_of (transports (run init_server
      [(''A'', Join True), (''B'', Join True), (''A'', CreateWebRtcTransport ''room-A-B'' True)])) 1
     = Some \<lparr>t_router = 0, t_socketId = ''A'', t_isProducer = True, t_connected = False\<rparr>
   \<and> engine_produce \<lparr>t_router = 0, t_socketId = ''A'', t_isProducer = True, t_connected = False\<rparr>
        Audio [''audio/opus''] \<noteq> None
   \<and> map_of (peerRooms (run init_server
      [(''A'', Join True), (''B'', Join True), (''A'', CreateWebRtcTransport ''room-A-B'' True)])) ''C''
     = None
   \<and> outbox (produce (run init_server
      [(''A'', Join True), (''B'', Join True), (''A'', CreateWebRtcTransport ''room-A-B'' True)])
        ''C'' 1 Audio [''audio/opus''])
     = outbox (run init_server
      [(''A'', Join True), (''B'', Join True), (''A'', CreateWebRtcTransport ''room-A-B'' True)])
       @ [Reply ''C'' (ProducerId 2)]
   \<and> map_of (producers (produce (run init_server
      [(''A'', Join True), (''B'', Join True), (''A'', CreateWebRtcTransport ''room-A-B'' True)])
        ''C'' 1 Audio [''audio/opus''])) 2
     = Some \<lparr>p_router = 0, p_kind = Audio, p_codecs = [''audio/opus'']\<rparr>"
proof -
  let ?st = "run init_server
      [(''A'', Join True), (''B'', Join True), (''A'', CreateWebRtcTransport ''room-A-B'' True)]"
  let ?t = "\<lparr>t_router = 0, t_socketId = ''A'', t_isProducer = True, t_connected = False\<rparr>"
  have h1: "map_of (transports ?st) 1 = Some ?t"
    by (simp add: request_defs handler_defs)
  have h2: "engine_produce ?t Audio [''audio/opus''] \<noteq> None"
    by (simp add: engine_produce_def default_codecs_def)
  have h3: "map_of (peerRooms ?st) ''C'' = None"
    by (simp add: request_defs handler_defs)
  have n: "next_id ?st = 2" by (simp add: request_defs handler_defs)
  note t = produce_without_room [OF h1 h2, where sock = "''C''"]
  from t h3 have "outbox (produce ?st ''C'' 1 Audio [''audio/opus''])
      = outbox ?st @ [Reply ''C'' (ProducerId (next_id ?st))]"
    by blast
  then have c1: "outbox (produce ?st ''C'' 1 Audio [''audio/opus''])
      = outbox ?st @ [Reply ''C'' (ProducerId 2)]"
    unfolding n .
  from t have "map_of (producers (produce ?st ''C'' 1 Audio [''audio/opus''])) (next_id ?st)
      = Some \<lparr>p_router = t_router ?t, p_kind = Audio, p_codecs = [''audio/opus'']\<rparr>"
    by blast
  then have c2: "map_of (producers (produce ?st ''C'' 1 Audio [''audio/opus''])) 2
      = Some \<lparr>p_router = 0, p_kind = Audio, p_codecs = [''audio/opus'']\<rparr>"
    unfolding n by simp
  show ?thesis using h1 h2 h3 c1 c2 by blast
qed

section \<open>getRouterRtpCapabilities\<close>

lemma capabilities_unanswered:
  "map_of (rooms st) roomName = None \<Longrightarrow> getRouterRtpCapabilities st sock roomName = st"
  by (simp add: getRouterRtpCapabilities_def)

text \<open>
  Claim C8 at a room that does not exist: the handler calls the callback only when it
  finds a router, so the request gets no answer at all, neither capabilities nor an
  error.
\<close>

theorem capabilities_of_absent_room_unanswered:
  "outbox (run init_server [(''A'', GetRouterRtpCapabilities ''room-X-Y'')]) = []"
  by (simp add: request_defs handler_defs)

section \<open>resume-consumer\<close>

text \<open>
  Claim C7 as written: \<open>B\<close> consumes the video of \<open>A\<close>; the consumer 4 is created
  paused. After \<open>resume-consumer\<close> for 4 it is still paused, and
  \<open>resume-consumer\<close> for the unknown identifier 99 sends no error.
\<close>

theorem resume_leaves_consumer_paused:
  "map_of (consumers (run init_server
      [(''A'', Join True), (''B'', Join True),
       (''A'', CreateWebRtcTransport ''room-A-B'' True),
       (''B'', CreateWebRtcTransport ''room-A-B'' False),
       (''A'', Produce 1 Video [''video/VP8'']),
       (''B'', Consume ''room-A-B'' 3 [''audio/opus'', ''video/VP8'']),
       (''B'', ResumeConsumer 4)])) 4
     = Some \<lparr>c_transport = 2, c_producer = 3, c_kind = Video, c_codecs = [''video/VP8''],
             c_paused = True\<rparr>
   \<and> outbox (run init_server
      [(''A'', Join True), (''B'', Join True),
       (''A'', CreateWebRtcTransport ''room-A-B'' True),
       (''B'', CreateWebRtcTransport ''room-A-B'' False),
       (''A'', Produce 1 Video [''video/VP8'']),
       (''B'', Consume ''room-A-B'' 3 [''audio/opus'', ''video/VP8'']),
       (''B'', ResumeConsumer 99)])
     = [Reply ''A'' Waiting, EmitTo ''A'' (Matched ''room-A-B''), EmitTo ''B'' (Matched ''room-A-B''),
        Reply ''A'' (TransportInfo 1), Reply ''B'' (TransportInfo 2),
        Broadcast ''A'' ''room-A-B'' (NewProducer 3), Reply ''A'' (ProducerId 3),
        Reply ''B'' (ConsumerInfo 4 3 Video [''video/VP8''])]"
  by (simp add: request_defs handler_defs)

text \<open>
  Claim C7, as it holds on the code: \<open>resume-consumer\<close> leaves the whole state as
  it is, for every consumer identifier; no consumer changes and nothing is sent.
\<close>

theorem resume_consumer_changes_nothing:
  "handle st (sock, ResumeConsumer consumerId) = st"
  by (simp add: resume_consumer_def)

section \<open>Rooms are never removed\<close>












section \<open>Consume\<close>





section \<open>Delivery\<close>

lemma roomName_of_not_member: "roomName_of a b \<noteq> a" "roomName_of a b \<noteq> b"
proof -
  have "length (roomName_of a b) = 6 + length a + length b" by (simp add: roomName_of_def)
  then show "roomName_of a b \<noteq> a" and "roomName_of a b \<noteq> b" by auto
qed

text \<open>
  A room name is longer than the identifiers it is built from, so it is not the own
  room of either peer: an emission addressed to it through \<open>socket.to\<close> brings an
  event to neither of them.
\<close>

lemma room_broadcast_reaches_no_member:
  "delivered (Broadcast a (roomName_of a b) e) b = []"
  "delivered (Broadcast b (roomName_of a b) e) a = []"
  using roomName_of_not_member [of a b] by (simp_all add: in_room_def)

text \<open>
  What \<open>B\<close> receives in all when \<open>A\<close> disconnects, and when \<open>A\<close> produces: the
  \<open>matched\<close> event of the pairing and nothing else.
\<close>

lemma peer_disconnected_not_received:
  "received (run init_server [(''A'', Join True), (''B'', Join True), (''A'', Disconnect)]) ''B''
     = [Matched ''room-A-B'']"
  by (simp add: received_def in_room_def request_defs handler_defs)

lemma new_producer_not_received:
  "received (run init_server
      [(''A'', Join True), (''B'', Join True), (''A'', CreateWebRtcTransport ''room-A-B'' True),
       (''A'', Produce 1 Video [''video/VP8''])]) ''B''
     = [Matched ''room-A-B'']"
  by (simp add: received_def in_room_def request_defs handler_defs)

end
